theory Spec2Isabelle
  imports Complex_Main
begin

section \<open>The Bedrock request handler of lambda\_function.py\<close>

text \<open>
  The repository is one function, \<open>lambda_handler(event, context)\<close>: it decodes the
  event, reads four optional fields, calls the Bedrock runtime once, unwraps the reply and
  maps every exception of the \<open>try\<close> block to an HTTP-shaped result.

  What lies outside the file is taken as a parameter of the model (the record
  \<open>runtime\<close>): the process environment, the \<open>json\<close> module and the Bedrock client.
  Everything the handler itself does (the type test on the event, the lookups with their
  defaults, the slice inside the log line, the renaming of the fields, the order of the
  \<open>except\<close> clauses, the literal header dictionaries) is written out below.
\<close>

subsection \<open>Python values and exceptions\<close>

text \<open>
  The values an event, a decoded reply or an envelope is made of: what \<open>json.loads\<close>
  produces and \<open>json.dumps\<close> accepts. A dictionary is an association list with string
  keys, looked up with \<open>map_of\<close>; the order of its entries is the insertion order that
  \<open>json.dumps\<close> writes. A \<open>str\<close> is a byte string (its UTF-8 encoding). A finite
  float is denoted by the decimal number that writes it (\<open>0.7\<close> is \<open>PyFloat (7/10)\<close>);
  the floats \<open>nan\<close>, \<open>inf\<close> and \<open>-inf\<close>, which \<open>json.loads\<close> produces from the
  texts \<open>NaN\<close>, \<open>Infinity\<close> and \<open>-Infinity\<close> and \<open>json.dumps\<close> writes back, are
  \<open>PyNonFinite\<close>. The handler does no arithmetic on floats, it only passes them on.
\<close>

datatype nonfinite = NaN | PosInfinity | NegInfinity

datatype py_value =
    PyNone
  | PyBool bool
  | PyInt int
  | PyFloat rat
  | PyNonFinite nonfinite
  | PyStr string
  | PyList "py_value list"
  | PyDict "(string \<times> py_value) list"

text \<open>
  The exceptions, by the three \<open>except\<close> clauses that tell them apart.
  \<open>ClientError code message\<close> is botocore's \<open>ClientError\<close> (or a subclass) with
  \<open>e.response['Error']['Code']\<close> and \<open>e.response['Error']['Message']\<close>, which botocore
  fills in for every error reply it parses. \<open>JSONDecodeError text\<close> carries \<open>str(e)\<close>.
  \<open>PyException cls text\<close> is an instance of any other subclass of \<open>Exception\<close>, with
  the name of its class and \<open>str(e)\<close>.
\<close>

datatype py_exception =
    ClientError string string
  | JSONDecodeError string
  | PyException string string

definition bind_exc :: "py_exception + 'a \<Rightarrow> ('a \<Rightarrow> py_exception + 'b) \<Rightarrow> py_exception + 'b" where
  "bind_exc r f = (case r of Inl e \<Rightarrow> Inl e | Inr v \<Rightarrow> f v)"

fun type_name :: "py_value \<Rightarrow> string" where
  "type_name PyNone = ''NoneType''"
| "type_name (PyBool _) = ''bool''"
| "type_name (PyInt _) = ''int''"
| "type_name (PyFloat _) = ''float''"
| "type_name (PyNonFinite _) = ''float''"
| "type_name (PyStr _) = ''str''"
| "type_name (PyList _) = ''list''"
| "type_name (PyDict _) = ''dict''"

definition quoted :: "string \<Rightarrow> string" where
  "quoted s = [CHR 0x27] @ s @ [CHR 0x27]"

text \<open>
  \<open>obj.get(key, default)\<close>: a dictionary answers with the value stored under the key (also
  when that value is \<open>None\<close>) and with the default when the key is absent; no other value
  of \<open>py_value\<close> has a \<open>get\<close> attribute.
\<close>

definition dict_get :: "py_value \<Rightarrow> string \<Rightarrow> py_value \<Rightarrow> py_exception + py_value" where
  "dict_get obj key dflt =
     (case obj of
        PyDict d \<Rightarrow> Inr (case map_of d key of Some v \<Rightarrow> v | None \<Rightarrow> dflt)
      | _ \<Rightarrow> Inl (PyException ''AttributeError''
                 (quoted (type_name obj) @ '' object has no attribute '' @ quoted ''get'')))"

subsection \<open>The runtime around the handler\<close>

record invoke_args =
  arg_modelId :: string
  arg_body :: string
  arg_contentType :: string
  arg_accept :: string

text \<open>
  \<open>environ\<close> is \<open>os.environ\<close>. \<open>json_loads\<close> and \<open>json_dumps\<close> are the two functions
  of the \<open>json\<close> module; \<open>json_dumps\<close> is total on \<open>py_value\<close>. \<open>invoke_model\<close> is
  \<open>bedrock_runtime.invoke_model(...)\<close> followed by \<open>response['body'].read()\<close>: the bytes
  of the reply, or the exception that either of them raises. \<open>slice_hashable\<close> tells
  whether \<open>slice\<close> objects are hashable (they are from Python 3.12 on), which decides the
  exception of \<open>d[:100]\<close> on a dictionary.
\<close>

record runtime =
  environ :: "string \<Rightarrow> string option"
  json_loads :: "string \<Rightarrow> py_exception + py_value"
  json_dumps :: "py_value \<Rightarrow> string"
  invoke_model :: "invoke_args \<Rightarrow> py_exception + string"
  slice_hashable :: bool

record response =
  statusCode :: int
  headers :: "(string \<times> string) list"
  body :: string

record generation_request =
  prompt :: py_value
  max_tokens :: py_value
  temperature :: py_value
  top_p :: py_value

subsection \<open>The try block, lines 29 to 87\<close>

text \<open>Lines 29 and 30: a \<open>str\<close> event is decoded, any other event is used as it is.\<close>

definition parse_event :: "runtime \<Rightarrow> py_value \<Rightarrow> py_exception + py_value" where
  "parse_event rt event = (case event of PyStr s \<Rightarrow> json_loads rt s | _ \<Rightarrow> Inr event)"

text \<open>Lines 33 to 36: the four lookups with their defaults, in the order of the source.\<close>

definition extract_parameters :: "py_value \<Rightarrow> py_exception + generation_request" where
  "extract_parameters event =
     bind_exc (dict_get event ''prompt'' (PyStr ''Hello, how are you?'')) (\<lambda>p.
     bind_exc (dict_get event ''max_tokens'' (PyInt 512)) (\<lambda>m.
     bind_exc (dict_get event ''temperature'' (PyFloat (7 / 10))) (\<lambda>t.
     bind_exc (dict_get event ''top_p'' (PyFloat (9 / 10))) (\<lambda>tp.
       Inr \<lparr>prompt = p, max_tokens = m, temperature = t, top_p = tp\<rparr>))))"

text \<open>
  Line 38: the log line evaluates \<open>prompt[:100]\<close> inside its f-string. A \<open>str\<close> and a
  list can be sliced; \<open>None\<close>, a bool, an int and a float are not subscriptable; a
  dictionary is subscripted with the slice as a key. The text that is logged is not part
  of the model, only whether evaluating it raises.
\<close>

definition log_prompt :: "runtime \<Rightarrow> py_value \<Rightarrow> py_exception + unit" where
  "log_prompt rt p =
     (case p of
        PyStr _ \<Rightarrow> Inr ()
      | PyList _ \<Rightarrow> Inr ()
      | PyDict _ \<Rightarrow>
          (if slice_hashable rt then Inl (PyException ''KeyError'' ''slice(None, 100, None)'')
           else Inl (PyException ''TypeError'' (''unhashable type: '' @ quoted ''slice'')))
      | _ \<Rightarrow> Inl (PyException ''TypeError''
                 (quoted (type_name p) @ '' object is not subscriptable'')))"

text \<open>Lines 29 to 38 together: the effective request, or the exception raised on the way.\<close>

definition effective_request :: "runtime \<Rightarrow> py_value \<Rightarrow> py_exception + generation_request" where
  "effective_request rt event0 =
     bind_exc (parse_event rt event0) (\<lambda>event.
     bind_exc (extract_parameters event) (\<lambda>rq.
     bind_exc (log_prompt rt (prompt rq)) (\<lambda>_. Inr rq)))"

text \<open>Lines 41 to 46.\<close>

definition request_body :: "generation_request \<Rightarrow> py_value" where
  "request_body rq =
     PyDict [(''prompt'', prompt rq),
             (''max_gen_len'', max_tokens rq),
             (''temperature'', temperature rq),
             (''top_p'', top_p rq)]"

text \<open>Line 49.\<close>

definition resolve_model_id :: "runtime \<Rightarrow> string" where
  "resolve_model_id rt =
     (case environ rt ''MODEL_ID'' of Some m \<Rightarrow> m | None \<Rightarrow> ''meta.llama3-8b-instruct-v1:0'')"

text \<open>Lines 52 to 57: the keyword arguments of the one call to the provider.\<close>

definition provider_args :: "runtime \<Rightarrow> generation_request \<Rightarrow> invoke_args" where
  "provider_args rt rq =
     \<lparr>arg_modelId = resolve_model_id rt,
      arg_body = json_dumps rt (request_body rq),
      arg_contentType = ''application/json'',
      arg_accept = ''application/json''\<rparr>"

text \<open>Lines 68 to 87.\<close>

definition success_response :: "runtime \<Rightarrow> generation_request \<Rightarrow> py_value \<Rightarrow> response" where
  "success_response rt rq generated_text =
     \<lparr>statusCode = 200,
      headers = [(''Content-Type'', ''application/json''),
                 (''Access-Control-Allow-Origin'', ''*''),
                 (''Access-Control-Allow-Headers'', ''Content-Type''),
                 (''Access-Control-Allow-Methods'', ''OPTIONS,POST,GET'')],
      body = json_dumps rt (PyDict
               [(''success'', PyBool True),
                (''generated_text'', generated_text),
                (''model_id'', PyStr (resolve_model_id rt)),
                (''input_prompt'', prompt rq),
                (''parameters'', PyDict
                   [(''max_tokens'', max_tokens rq),
                    (''temperature'', temperature rq),
                    (''top_p'', top_p rq)])])\<rparr>"

text \<open>
  The whole \<open>try\<close> block. Its second component is the list of calls made to the
  provider: none when an exception is raised before line 52, one otherwise.
\<close>

definition try_block :: "runtime \<Rightarrow> py_value \<Rightarrow> (py_exception + response) \<times> invoke_args list" where
  "try_block rt event0 =
     (case effective_request rt event0 of
        Inl e \<Rightarrow> (Inl e, [])
      | Inr rq \<Rightarrow>
          (bind_exc (invoke_model rt (provider_args rt rq)) (\<lambda>raw.
           bind_exc (json_loads rt raw) (\<lambda>response_body.
           bind_exc (dict_get response_body ''generation'' (PyStr [])) (\<lambda>generated_text.
             Inr (success_response rt rq generated_text)))),
           [provider_args rt rq]))"

subsection \<open>The except clauses, lines 89 to 138\<close>

definition error_response :: "runtime \<Rightarrow> int \<Rightarrow> string \<Rightarrow> string \<Rightarrow> response" where
  "error_response rt status err msg =
     \<lparr>statusCode = status,
      headers = [(''Content-Type'', ''application/json''),
                 (''Access-Control-Allow-Origin'', ''*'')],
      body = json_dumps rt (PyDict
               [(''success'', PyBool False),
                (''error'', PyStr err),
                (''message'', PyStr msg)])\<rparr>"

text \<open>The clauses are tried in the order of the source.\<close>

definition handle_exception :: "runtime \<Rightarrow> py_exception \<Rightarrow> response" where
  "handle_exception rt e =
     (case e of
        ClientError error_code error_message \<Rightarrow>
          error_response rt 400 (''AWS Error: '' @ error_code) error_message
      | JSONDecodeError text \<Rightarrow> error_response rt 400 ''Invalid JSON format'' text
      | PyException cls text \<Rightarrow> error_response rt 500 ''Internal server error'' text)"

text \<open>The handler; \<open>context\<close> is not used, as in the source.\<close>

definition lambda_handler :: "runtime \<Rightarrow> py_value \<Rightarrow> 'c \<Rightarrow> response" where
  "lambda_handler rt event context =
     (case fst (try_block rt event) of
        Inr result \<Rightarrow> result
      | Inl e \<Rightarrow> handle_exception rt e)"

text \<open>The calls to the provider that one invocation makes.\<close>

definition provider_calls :: "runtime \<Rightarrow> py_value \<Rightarrow> invoke_args list" where
  "provider_calls rt event = snd (try_block rt event)"

subsection \<open>A mocked runtime\<close>

text \<open>
  A runtime for running the handler on concrete events: no \<open>MODEL_ID\<close> in the
  environment, a Python before 3.12, and a decoder that answers the six texts below as
  \<open>json.loads\<close> does (it accepts \<open>NaN\<close>, which is outside the JSON grammar, and it
  raises \<open>UnicodeDecodeError\<close>, not \<open>JSONDecodeError\<close>, on the single byte 0x80) and
  rejects every other text with the diagnostic that \<open>json.loads\<close> gives for a text
  starting with no JSON value. The serialiser and the provider are arguments.
\<close>

definition mock_loads :: "string \<Rightarrow> py_exception + py_value" where
  "mock_loads s =
     (if s = ''{}'' then Inr (PyDict [])
      else if s = ''{\"generation\": \"X\"}'' then Inr (PyDict [(''generation'', PyStr ''X'')])
      else if s = ''{\"stop_reason\": \"stop\"}'' then Inr (PyDict [(''stop_reason'', PyStr ''stop'')])
      else if s = ''5'' then Inr (PyInt 5)
      else if s = ''NaN'' then Inr (PyNonFinite NaN)
      else if s = [CHR 0x80] then
        Inl (PyException ''UnicodeDecodeError''
               (quoted ''utf-8''
                @ '' codec can't decode byte 0x80 in position 0: invalid start byte''))
      else Inl (JSONDecodeError ''Expecting value: line 1 column 1 (char 0)''))"

definition mock_runtime ::
  "(py_value \<Rightarrow> string) \<Rightarrow> (invoke_args \<Rightarrow> py_exception + string) \<Rightarrow> runtime" where
  "mock_runtime dumps provider =
     \<lparr>environ = (\<lambda>_. None),
      json_loads = mock_loads,
      json_dumps = dumps,
      invoke_model = provider,
      slice_hashable = False\<rparr>"

subsection \<open>How the handler dispatches\<close>

lemma bind_exc_simps:
  "bind_exc (Inl e) f = Inl e"
  "bind_exc (Inr v) f = f v"
  by (simp_all add: bind_exc_def)

lemma dict_get_PyDict:
  "dict_get (PyDict d) key dflt = Inr (case map_of d key of Some v \<Rightarrow> v | None \<Rightarrow> dflt)"
  by (simp add: dict_get_def)

lemma dict_get_no_attribute:
  assumes "\<And>d. obj \<noteq> PyDict d"
  shows "dict_get obj key dflt =
           Inl (PyException ''AttributeError''
                  (quoted (type_name obj) @ '' object has no attribute '' @ quoted ''get''))"
  using assms by (cases obj) (auto simp: dict_get_def)

lemma lambda_handler_raised:
  "fst (try_block rt event) = Inl e \<Longrightarrow> lambda_handler rt event ctx = handle_exception rt e"
  by (simp add: lambda_handler_def)

lemma lambda_handler_returned:
  "fst (try_block rt event) = Inr r \<Longrightarrow> lambda_handler rt event ctx = r"
  by (simp add: lambda_handler_def)

lemma try_block_early:
  "effective_request rt event = Inl e \<Longrightarrow> try_block rt event = (Inl e, [])"
  by (simp add: try_block_def)

lemma try_block_invoked:
  "effective_request rt event = Inr rq \<Longrightarrow>
   try_block rt event =
     (bind_exc (invoke_model rt (provider_args rt rq)) (\<lambda>raw.
      bind_exc (json_loads rt raw) (\<lambda>response_body.
      bind_exc (dict_get response_body ''generation'' (PyStr [])) (\<lambda>generated_text.
        Inr (success_response rt rq generated_text)))),
      [provider_args rt rq])"
  by (simp add: try_block_def)

subsection \<open>What the handler does once the request is known\<close>

lemma extract_parameters_PyDict:
  "extract_parameters (PyDict d) =
     Inr \<lparr>prompt = (case map_of d ''prompt'' of Some v \<Rightarrow> v | None \<Rightarrow> PyStr ''Hello, how are you?''),
          max_tokens = (case map_of d ''max_tokens'' of Some v \<Rightarrow> v | None \<Rightarrow> PyInt 512),
          temperature = (case map_of d ''temperature'' of Some v \<Rightarrow> v | None \<Rightarrow> PyFloat (7 / 10)),
          top_p = (case map_of d ''top_p'' of Some v \<Rightarrow> v | None \<Rightarrow> PyFloat (9 / 10))\<rparr>"
  by (simp add: extract_parameters_def dict_get_PyDict bind_exc_simps)

lemma effective_request_parsed:
  "parse_event rt event = Inr ev \<Longrightarrow>
   effective_request rt event =
     bind_exc (extract_parameters ev) (\<lambda>rq. bind_exc (log_prompt rt (prompt rq)) (\<lambda>_. Inr rq))"
  by (simp add: effective_request_def bind_exc_simps)

lemma effective_request_is_extracted:
  assumes "parse_event rt event = Inr (PyDict d)" and "effective_request rt event = Inr rq"
  shows "extract_parameters (PyDict d) = Inr rq"
  using assms(2)
  by (simp add: effective_request_parsed [OF assms(1)] extract_parameters_PyDict bind_exc_def
           split: sum.splits)

lemma provider_raised:
  assumes "effective_request rt event = Inr rq"
      and "invoke_model rt (provider_args rt rq) = Inl e"
  shows "lambda_handler rt event ctx = handle_exception rt e"
  by (rule lambda_handler_raised) (simp add: try_block_invoked [OF assms(1)] assms(2) bind_exc_simps)

lemma reply_not_decoded:
  assumes "effective_request rt event = Inr rq"
      and "invoke_model rt (provider_args rt rq) = Inr raw"
      and "json_loads rt raw = Inl e"
  shows "lambda_handler rt event ctx = handle_exception rt e"
  by (rule lambda_handler_raised)
     (simp add: try_block_invoked [OF assms(1)] assms(2) assms(3) bind_exc_simps)

lemma reply_decoded_to_dict:
  assumes "effective_request rt event = Inr rq"
      and "invoke_model rt (provider_args rt rq) = Inr raw"
      and "json_loads rt raw = Inr (PyDict reply)"
  shows "lambda_handler rt event ctx =
           success_response rt rq
             (case map_of reply ''generation'' of Some v \<Rightarrow> v | None \<Rightarrow> PyStr [])"
  by (rule lambda_handler_returned)
     (simp add: try_block_invoked [OF assms(1)] assms(2) assms(3) bind_exc_simps dict_get_PyDict)

lemma statusCode_handle_exception:
  "statusCode (handle_exception rt e) = 400 \<or> statusCode (handle_exception rt e) = 500"
  by (cases e) (simp_all add: handle_exception_def error_response_def)

lemma headers_handle_exception:
  "headers (handle_exception rt e) =
     [(''Content-Type'', ''application/json''), (''Access-Control-Allow-Origin'', ''*'')]"
  by (cases e) (simp_all add: handle_exception_def error_response_def)

lemma try_block_returns_success:
  assumes "fst (try_block rt event) = Inr r"
  shows "\<exists>rq g. effective_request rt event = Inr rq \<and> r = success_response rt rq g"
proof (cases "effective_request rt event")
  case (Inl e)
  with assms show ?thesis by (simp add: try_block_early)
next
  case (Inr rq)
  with assms show ?thesis
    by (auto simp: try_block_invoked bind_exc_def split: sum.splits)
qed

lemma lambda_handler_cases:
  "(\<exists>rq g. effective_request rt event = Inr rq
       \<and> lambda_handler rt event ctx = success_response rt rq g)
   \<or> (\<exists>e. fst (try_block rt event) = Inl e
       \<and> lambda_handler rt event ctx = handle_exception rt e)"
proof (cases "fst (try_block rt event)")
  case (Inl e)
  then show ?thesis by (simp add: lambda_handler_raised)
next
  case (Inr r)
  from try_block_returns_success [OF Inr] Inr show ?thesis
    by (auto simp: lambda_handler_returned)
qed

lemma status_200_is_success:
  assumes "statusCode (lambda_handler rt event ctx) = 200"
  shows "\<exists>rq g. effective_request rt event = Inr rq
           \<and> lambda_handler rt event ctx = success_response rt rq g"
proof -
  have "statusCode (handle_exception rt e) \<noteq> 200" for e
    using statusCode_handle_exception [of rt e] by auto
  with lambda_handler_cases [of rt event ctx] assms show ?thesis
    by auto
qed

subsection \<open>Events that are neither text nor a dictionary\<close>

text \<open>
  Claim C10. An event that is neither a \<open>str\<close> nor a dictionary (an int, a list, a
  float, a bool, \<open>None\<close>) is not decoded, its first lookup raises \<open>AttributeError\<close>, no
  request is sent, and the catch-all clause answers with status 500, the error
  \<open>Internal server error\<close> and the text of the exception as message.
\<close>

theorem non_mapping_event_is_internal_error:
  assumes "\<And>s. event \<noteq> PyStr s" and "\<And>d. event \<noteq> PyDict d"
  shows "lambda_handler rt event ctx =
           \<lparr>statusCode = 500,
            headers = [(''Content-Type'', ''application/json''),
                       (''Access-Control-Allow-Origin'', ''*'')],
            body = json_dumps rt (PyDict
                     [(''success'', PyBool False),
                      (''error'', PyStr ''Internal server error''),
                      (''message'', PyStr (quoted (type_name event)
                                           @ '' object has no attribute '' @ quoted ''get''))])\<rparr>
         \<and> provider_calls rt event = []"
proof -
  have parsed: "parse_event rt event = Inr event"
    using assms(1) by (cases event) (auto simp: parse_event_def)
  have "extract_parameters event =
          Inl (PyException ''AttributeError''
                 (quoted (type_name event) @ '' object has no attribute '' @ quoted ''get''))"
    unfolding extract_parameters_def
    by (simp add: dict_get_no_attribute [OF assms(2)] bind_exc_simps)
  then have early: "effective_request rt event =
          Inl (PyException ''AttributeError''
                 (quoted (type_name event) @ '' object has no attribute '' @ quoted ''get''))"
    by (simp add: effective_request_def parsed bind_exc_simps)
  have tb: "try_block rt event =
          (Inl (PyException ''AttributeError''
                 (quoted (type_name event) @ '' object has no attribute '' @ quoted ''get'')), [])"
    by (rule try_block_early [OF early])
  have res: "lambda_handler rt event ctx =
           error_response rt 500 ''Internal server error''
             (quoted (type_name event) @ '' object has no attribute '' @ quoted ''get'')"
    by (simp add: lambda_handler_def tb handle_exception_def)
  show ?thesis
    by (simp add: res provider_calls_def tb error_response_def)
qed

theorem non_mapping_event_is_internal_error_witness:
  "\<forall>dumps.
     lambda_handler (mock_runtime dumps (\<lambda>_. Inr ''{}'')) (PyInt 5) () =
       \<lparr>statusCode = 500,
        headers = [(''Content-Type'', ''application/json''),
                   (''Access-Control-Allow-Origin'', ''*'')],
        body = dumps (PyDict
                 [(''success'', PyBool False),
                  (''error'', PyStr ''Internal server error''),
                  (''message'', PyStr (quoted ''int'' @ '' object has no attribute ''
                                       @ quoted ''get''))])\<rparr>
     \<and> lambda_handler (mock_runtime dumps (\<lambda>_. Inr ''{}'')) (PyList [PyInt 1]) () =
       \<lparr>statusCode = 500,
        headers = [(''Content-Type'', ''application/json''),
                   (''Access-Control-Allow-Origin'', ''*'')],
        body = dumps (PyDict
                 [(''success'', PyBool False),
                  (''error'', PyStr ''Internal server error''),
                  (''message'', PyStr (quoted ''list'' @ '' object has no attribute ''
                                       @ quoted ''get''))])\<rparr>"
  (is "\<forall>dumps. ?P dumps")
proof
  fix dumps
  let ?rt = "mock_runtime dumps (\<lambda>_. Inr ''{}'')"
  show "?P dumps"
    using non_mapping_event_is_internal_error [of "PyInt 5" ?rt "()"]
          non_mapping_event_is_internal_error [of "PyList [PyInt 1]" ?rt "()"]
    by (simp add: error_response_def mock_runtime_def)
qed

subsection \<open>The success path\<close>





subsection \<open>The three failure clauses\<close>

text \<open>
  Claim C5. When the handler has reached the provider and the call raises a
  \<open>ClientError\<close> whose error response carries the code \<open>C\<close> and the message \<open>M\<close>, the
  result has status 400 and its body is the serialised envelope with \<open>success\<close> false,
  \<open>error\<close> equal to \<open>AWS Error: \<close> followed by \<open>C\<close>, and \<open>message\<close> equal to \<open>M\<close>.
\<close>

theorem client_error_is_400:
  assumes "effective_request rt event = Inr rq"
      and "invoke_model rt (provider_args rt rq) = Inl (ClientError C M)"
  shows "lambda_handler rt event ctx =
           \<lparr>statusCode = 400,
            headers = [(''Content-Type'', ''application/json''),
                       (''Access-Control-Allow-Origin'', ''*'')],
            body = json_dumps rt (PyDict
                     [(''success'', PyBool False),
                      (''error'', PyStr (''AWS Error: '' @ C)),
                      (''message'', PyStr M)])\<rparr>"
  by (simp add: provider_raised [OF assms] handle_exception_def error_response_def)

theorem client_error_is_400_witness:
  "\<forall>dumps.
     lambda_handler
       (mock_runtime dumps (\<lambda>_. Inl (ClientError ''ThrottlingException'' ''Too many requests'')))
       (PyDict [(''prompt'', PyStr ''Hi'')]) () =
       \<lparr>statusCode = 400,
        headers = [(''Content-Type'', ''application/json''),
                   (''Access-Control-Allow-Origin'', ''*'')],
        body = dumps (PyDict
                 [(''success'', PyBool False),
                  (''error'', PyStr ''AWS Error: ThrottlingException''),
                  (''message'', PyStr ''Too many requests'')])\<rparr>"
  (is "\<forall>dumps. ?P dumps")
proof
  fix dumps
  let ?rt = "mock_runtime dumps (\<lambda>_. Inl (ClientError ''ThrottlingException'' ''Too many requests''))"
  let ?rq = "\<lparr>prompt = PyStr ''Hi'', max_tokens = PyInt 512,
              temperature = PyFloat (7 / 10), top_p = PyFloat (9 / 10)\<rparr>"
  have 1: "effective_request ?rt (PyDict [(''prompt'', PyStr ''Hi'')]) = Inr ?rq"
    by (simp add: effective_request_def parse_event_def extract_parameters_PyDict
                  log_prompt_def bind_exc_simps)
  have 2: "invoke_model ?rt (provider_args ?rt ?rq) =
             Inl (ClientError ''ThrottlingException'' ''Too many requests'')"
    by (simp add: mock_runtime_def)
  show "?P dumps"
    using client_error_is_400 [OF 1 2, of "()"] by (simp add: mock_runtime_def)
qed

text \<open>
  Claim C6, as the code has it. When the event is a \<open>str\<close> and \<open>json.loads\<close> raises
  a \<open>JSONDecodeError\<close> on it, with the text \<open>diagnostic\<close>, the result has status 400
  and its body is the serialised envelope with \<open>success\<close> false, \<open>error\<close> equal to
  \<open>Invalid JSON format\<close> and \<open>message\<close> equal to \<open>diagnostic\<close>; no request is sent.
\<close>

theorem malformed_event_is_400:
  assumes "json_loads rt s = Inl (JSONDecodeError diagnostic)"
  shows "lambda_handler rt (PyStr s) ctx =
           \<lparr>statusCode = 400,
            headers = [(''Content-Type'', ''application/json''),
                       (''Access-Control-Allow-Origin'', ''*'')],
            body = json_dumps rt (PyDict
                     [(''success'', PyBool False),
                      (''error'', PyStr ''Invalid JSON format''),
                      (''message'', PyStr diagnostic)])\<rparr>
         \<and> provider_calls rt (PyStr s) = []"
proof -
  have "effective_request rt (PyStr s) = Inl (JSONDecodeError diagnostic)"
    by (simp add: effective_request_def parse_event_def assms bind_exc_simps)
  then have tb: "try_block rt (PyStr s) = (Inl (JSONDecodeError diagnostic), [])"
    by (rule try_block_early)
  show ?thesis
    by (simp add: lambda_handler_def provider_calls_def tb handle_exception_def
                  error_response_def)
qed

theorem malformed_event_is_400_witness:
  "\<forall>dumps.
     lambda_handler (mock_runtime dumps (\<lambda>_. Inr ''{}'')) (PyStr ''not json'') () =
       \<lparr>statusCode = 400,
        headers = [(''Content-Type'', ''application/json''),
                   (''Access-Control-Allow-Origin'', ''*'')],
        body = dumps (PyDict
                 [(''success'', PyBool False),
                  (''error'', PyStr ''Invalid JSON format''),
                  (''message'', PyStr ''Expecting value: line 1 column 1 (char 0)'')])\<rparr>"
  (is "\<forall>dumps. ?P dumps")
proof
  fix dumps
  let ?rt = "mock_runtime dumps (\<lambda>_. Inr ''{}'')"
  have 1: "json_loads ?rt ''not json'' =
             Inl (JSONDecodeError ''Expecting value: line 1 column 1 (char 0)'')"
    by (simp add: mock_runtime_def mock_loads_def)
  show "?P dumps"
    using malformed_event_is_400 [OF 1, of "()"] by (simp add: mock_runtime_def)
qed

text \<open>
  The claim as the specification words it, status 400 for every \<open>str\<close> event that is
  not valid JSON, fails: the text \<open>NaN\<close> is not JSON, \<open>json.loads\<close> accepts it as the
  float \<open>nan\<close>, the first lookup on that float raises \<open>AttributeError\<close>, and the
  catch-all clause answers with status 500.
\<close>

theorem non_json_event_accepted_counterexample:
  "statusCode (lambda_handler (mock_runtime (\<lambda>_. []) (\<lambda>_. Inr ''{}'')) (PyStr ''NaN'') ()) = 500
   \<and> fst (try_block (mock_runtime (\<lambda>_. []) (\<lambda>_. Inr ''{}'')) (PyStr ''NaN'')) =
       Inl (PyException ''AttributeError''
              (quoted ''float'' @ '' object has no attribute '' @ quoted ''get''))"
proof -
  let ?rt = "mock_runtime (\<lambda>_. []) (\<lambda>_. Inr ''{}'')"
  have "effective_request ?rt (PyStr ''NaN'') =
          Inl (PyException ''AttributeError''
                 (quoted ''float'' @ '' object has no attribute '' @ quoted ''get''))"
    by (simp add: effective_request_def parse_event_def extract_parameters_def dict_get_def
                  mock_runtime_def mock_loads_def bind_exc_simps)
  then have tb: "try_block ?rt (PyStr ''NaN'') =
          (Inl (PyException ''AttributeError''
                 (quoted ''float'' @ '' object has no attribute '' @ quoted ''get'')), [])"
    by (rule try_block_early)
  show ?thesis
    by (simp add: lambda_handler_def tb handle_exception_def error_response_def)
qed

text \<open>
  Claim C9, as the code has it. When the handler has reached the provider, the provider
  has answered, and \<open>json.loads\<close> raises a \<open>JSONDecodeError\<close> on the reply, the
  exception is caught by the same clause as a malformed event: status 400 and
  \<open>Invalid JSON format\<close>, not 500.
\<close>

theorem malformed_reply_is_400:
  assumes "effective_request rt event = Inr rq"
      and "invoke_model rt (provider_args rt rq) = Inr raw"
      and "json_loads rt raw = Inl (JSONDecodeError diagnostic)"
  shows "lambda_handler rt event ctx =
           \<lparr>statusCode = 400,
            headers = [(''Content-Type'', ''application/json''),
                       (''Access-Control-Allow-Origin'', ''*'')],
            body = json_dumps rt (PyDict
                     [(''success'', PyBool False),
                      (''error'', PyStr ''Invalid JSON format''),
                      (''message'', PyStr diagnostic)])\<rparr>
         \<and> statusCode (lambda_handler rt event ctx) \<noteq> 500"
  by (simp add: reply_not_decoded [OF assms] handle_exception_def error_response_def)

theorem malformed_reply_is_400_witness:
  "\<forall>dumps.
     lambda_handler (mock_runtime dumps (\<lambda>_. Inr ''<html>Bad gateway</html>'')) (PyStr ''{}'') () =
       \<lparr>statusCode = 400,
        headers = [(''Content-Type'', ''application/json''),
                   (''Access-Control-Allow-Origin'', ''*'')],
        body = dumps (PyDict
                 [(''success'', PyBool False),
                  (''error'', PyStr ''Invalid JSON format''),
                  (''message'', PyStr ''Expecting value: line 1 column 1 (char 0)'')])\<rparr>"
  (is "\<forall>dumps. ?P dumps")
proof
  fix dumps
  let ?rt = "mock_runtime dumps (\<lambda>_. Inr ''<html>Bad gateway</html>'')"
  let ?rq = "\<lparr>prompt = PyStr ''Hello, how are you?'', max_tokens = PyInt 512,
              temperature = PyFloat (7 / 10), top_p = PyFloat (9 / 10)\<rparr>"
  have 0: "parse_event ?rt (PyStr ''{}'') = Inr (PyDict [])"
    by (simp add: parse_event_def mock_runtime_def mock_loads_def)
  have 1: "effective_request ?rt (PyStr ''{}'') = Inr ?rq"
    by (simp add: effective_request_parsed [OF 0] extract_parameters_PyDict
                  log_prompt_def bind_exc_simps)
  have 2: "invoke_model ?rt (provider_args ?rt ?rq) = Inr ''<html>Bad gateway</html>''"
    by (simp add: mock_runtime_def)
  have 3: "json_loads ?rt ''<html>Bad gateway</html>'' =
             Inl (JSONDecodeError ''Expecting value: line 1 column 1 (char 0)'')"
    by (simp add: mock_runtime_def mock_loads_def)
  show "?P dumps"
    using malformed_reply_is_400 [OF 1 2 3, of "()"] by (simp add: mock_runtime_def)
qed

text \<open>
  The claim as the specification words it, status 400 whenever the reply fails to decode,
  fails: on a reply that is the single byte 0x80 \<open>json.loads\<close> raises
  \<open>UnicodeDecodeError\<close>, which is not a \<open>JSONDecodeError\<close>, and the catch-all clause
  answers with status 500.
\<close>

theorem undecodable_reply_counterexample:
  "statusCode (lambda_handler (mock_runtime (\<lambda>_. []) (\<lambda>_. Inr [CHR 0x80])) (PyDict []) ()) = 500
   \<and> fst (try_block (mock_runtime (\<lambda>_. []) (\<lambda>_. Inr [CHR 0x80])) (PyDict [])) =
       Inl (PyException ''UnicodeDecodeError''
              (quoted ''utf-8''
               @ '' codec can't decode byte 0x80 in position 0: invalid start byte''))"
proof -
  let ?rt = "mock_runtime (\<lambda>_. []) (\<lambda>_. Inr [CHR 0x80])"
  let ?rq = "\<lparr>prompt = PyStr ''Hello, how are you?'', max_tokens = PyInt 512,
              temperature = PyFloat (7 / 10), top_p = PyFloat (9 / 10)\<rparr>"
  have 1: "effective_request ?rt (PyDict []) = Inr ?rq"
    by (simp add: effective_request_def parse_event_def extract_parameters_PyDict
                  log_prompt_def bind_exc_simps)
  have 2: "invoke_model ?rt (provider_args ?rt ?rq) = Inr [CHR 0x80]"
    by (simp add: mock_runtime_def)
  have 3: "json_loads ?rt [CHR 0x80] =
             Inl (PyException ''UnicodeDecodeError''
                    (quoted ''utf-8''
                     @ '' codec can't decode byte 0x80 in position 0: invalid start byte''))"
    by (simp add: mock_runtime_def mock_loads_def)
  have tb: "fst (try_block ?rt (PyDict [])) =
             Inl (PyException ''UnicodeDecodeError''
                    (quoted ''utf-8''
                     @ '' codec can't decode byte 0x80 in position 0: invalid start byte''))"
    by (simp add: try_block_invoked [OF 1] 2 3 bind_exc_simps)
  show ?thesis
    by (simp add: lambda_handler_def tb handle_exception_def error_response_def)
qed

lemma success_response_envelope:
  "\<exists>envelope.
     body (success_response rt rq g) = json_dumps rt (PyDict envelope)
     \<and> map_of envelope ''success'' = Some (PyBool (statusCode (success_response rt rq g) = 200))"
  by (rule exI [of _ "[(''success'', PyBool True),
                       (''generated_text'', g),
                       (''model_id'', PyStr (resolve_model_id rt)),
                       (''input_prompt'', prompt rq),
                       (''parameters'', PyDict
                          [(''max_tokens'', max_tokens rq),
                           (''temperature'', temperature rq),
                           (''top_p'', top_p rq)])]"])
     (simp add: success_response_def)

lemma error_response_envelope:
  assumes "status \<noteq> 200"
  shows "\<exists>envelope.
     body (error_response rt status err msg) = json_dumps rt (PyDict envelope)
     \<and> map_of envelope ''success'' =
         Some (PyBool (statusCode (error_response rt status err msg) = 200))"
  by (rule exI [of _ "[(''success'', PyBool False),
                       (''error'', PyStr err),
                       (''message'', PyStr msg)]"])
     (simp add: error_response_def assms)

text \<open>
  Claim C7. When the \<open>try\<close> block raises an exception that is neither a \<open>ClientError\<close>
  nor a \<open>JSONDecodeError\<close>, the result has status 500 and its body is the serialised
  envelope with \<open>success\<close> false, \<open>error\<close> equal to \<open>Internal server error\<close> and
  \<open>message\<close> equal to the text of the exception. Hence every invocation returns a result:
  its status is 200, 400 or 500 and its body is a serialised envelope whose \<open>success\<close>
  field tells whether the status is 200.
\<close>

theorem other_failure_is_500:
  "(fst (try_block rt event) = Inl (PyException cls text) \<longrightarrow>
      lambda_handler rt event ctx =
        \<lparr>statusCode = 500,
         headers = [(''Content-Type'', ''application/json''),
                    (''Access-Control-Allow-Origin'', ''*'')],
         body = json_dumps rt (PyDict
                  [(''success'', PyBool False),
                   (''error'', PyStr ''Internal server error''),
                   (''message'', PyStr text)])\<rparr>)
   \<and> (statusCode (lambda_handler rt event ctx) = 200
        \<or> statusCode (lambda_handler rt event ctx) = 400
        \<or> statusCode (lambda_handler rt event ctx) = 500)
   \<and> (\<exists>envelope.
         body (lambda_handler rt event ctx) = json_dumps rt (PyDict envelope)
         \<and> map_of envelope ''success'' =
             Some (PyBool (statusCode (lambda_handler rt event ctx) = 200)))"
proof (intro conjI impI)
  assume "fst (try_block rt event) = Inl (PyException cls text)"
  then show "lambda_handler rt event ctx =
        \<lparr>statusCode = 500,
         headers = [(''Content-Type'', ''application/json''),
                    (''Access-Control-Allow-Origin'', ''*'')],
         body = json_dumps rt (PyDict
                  [(''success'', PyBool False),
                   (''error'', PyStr ''Internal server error''),
                   (''message'', PyStr text)])\<rparr>"
    by (simp add: lambda_handler_raised handle_exception_def error_response_def)
next
  show "statusCode (lambda_handler rt event ctx) = 200
        \<or> statusCode (lambda_handler rt event ctx) = 400
        \<or> statusCode (lambda_handler rt event ctx) = 500"
  proof -
    from lambda_handler_cases [of rt event ctx] show ?thesis
    proof (elim disjE exE conjE)
      fix rq g
      assume "lambda_handler rt event ctx = success_response rt rq g"
      then show ?thesis by (simp add: success_response_def)
    next
      fix e
      assume "lambda_handler rt event ctx = handle_exception rt e"
      with statusCode_handle_exception [of rt e] show ?thesis by auto
    qed
  qed
next
  from lambda_handler_cases [of rt event ctx]
  show "\<exists>envelope.
         body (lambda_handler rt event ctx) = json_dumps rt (PyDict envelope)
         \<and> map_of envelope ''success'' =
             Some (PyBool (statusCode (lambda_handler rt event ctx) = 200))"
  proof (elim disjE exE conjE)
    fix rq g
    assume "lambda_handler rt event ctx = success_response rt rq g"
    then show ?thesis by (simp add: success_response_envelope)
  next
    fix e
    assume "lambda_handler rt event ctx = handle_exception rt e"
    then show ?thesis
      by (cases e) (simp_all add: handle_exception_def error_response_envelope)
  qed
qed

theorem other_failure_is_500_witness:
  "\<forall>dumps.
     lambda_handler
       (mock_runtime dumps (\<lambda>_. Inl (PyException ''EndpointConnectionError'' ''Could not connect'')))
       (PyDict []) () =
       \<lparr>statusCode = 500,
        headers = [(''Content-Type'', ''application/json''),
                   (''Access-Control-Allow-Origin'', ''*'')],
        body = dumps (PyDict
                 [(''success'', PyBool False),
                  (''error'', PyStr ''Internal server error''),
                  (''message'', PyStr ''Could not connect'')])\<rparr>
     \<and> lambda_handler (mock_runtime dumps (\<lambda>_. Inr ''{}''))
         (PyDict [(''prompt'', PyInt 5)]) () =
       \<lparr>statusCode = 500,
        headers = [(''Content-Type'', ''application/json''),
                   (''Access-Control-Allow-Origin'', ''*'')],
        body = dumps (PyDict
                 [(''success'', PyBool False),
                  (''error'', PyStr ''Internal server error''),
                  (''message'', PyStr (quoted ''int'' @ '' object is not subscriptable''))])\<rparr>
     \<and> lambda_handler (mock_runtime dumps (\<lambda>_. Inr ''{}'')) (PyStr ''5'') () =
       \<lparr>statusCode = 500,
        headers = [(''Content-Type'', ''application/json''),
                   (''Access-Control-Allow-Origin'', ''*'')],
        body = dumps (PyDict
                 [(''success'', PyBool False),
                  (''error'', PyStr ''Internal server error''),
                  (''message'', PyStr (quoted ''int'' @ '' object has no attribute '' @ quoted ''get''))])\<rparr>"
  (is "\<forall>dumps. ?P dumps")
proof
  fix dumps
  let ?down = "mock_runtime dumps (\<lambda>_. Inl (PyException ''EndpointConnectionError'' ''Could not connect''))"
  let ?rq = "\<lparr>prompt = PyStr ''Hello, how are you?'', max_tokens = PyInt 512,
              temperature = PyFloat (7 / 10), top_p = PyFloat (9 / 10)\<rparr>"
  have 1: "effective_request ?down (PyDict []) = Inr ?rq"
    by (simp add: effective_request_def parse_event_def extract_parameters_PyDict
                  log_prompt_def bind_exc_simps)
  have 2: "invoke_model ?down (provider_args ?down ?rq) =
             Inl (PyException ''EndpointConnectionError'' ''Could not connect'')"
    by (simp add: mock_runtime_def)
  have 3: "fst (try_block ?down (PyDict [])) =
             Inl (PyException ''EndpointConnectionError'' ''Could not connect'')"
    by (simp add: try_block_invoked [OF 1] 2 bind_exc_simps)
  let ?rt = "mock_runtime dumps (\<lambda>_. Inr ''{}'')"
  have "effective_request ?rt (PyDict [(''prompt'', PyInt 5)]) =
          Inl (PyException ''TypeError'' (quoted ''int'' @ '' object is not subscriptable''))"
    by (simp add: effective_request_def parse_event_def extract_parameters_PyDict
                  log_prompt_def bind_exc_simps)
  then have 4: "fst (try_block ?rt (PyDict [(''prompt'', PyInt 5)])) =
          Inl (PyException ''TypeError'' (quoted ''int'' @ '' object is not subscriptable''))"
    by (simp add: try_block_early)
  have "effective_request ?rt (PyStr ''5'') =
          Inl (PyException ''AttributeError''
                 (quoted ''int'' @ '' object has no attribute '' @ quoted ''get''))"
    by (simp add: effective_request_def parse_event_def extract_parameters_def dict_get_def
                  mock_runtime_def mock_loads_def bind_exc_simps)
  then have 5: "fst (try_block ?rt (PyStr ''5'')) =
          Inl (PyException ''AttributeError''
                 (quoted ''int'' @ '' object has no attribute '' @ quoted ''get''))"
    by (simp add: try_block_early)
  show "?P dumps"
    using other_failure_is_500
            [of ?down "PyDict []" "''EndpointConnectionError''" "''Could not connect''" "()"]
          other_failure_is_500
            [of ?rt "PyDict [(''prompt'', PyInt 5)]" "''TypeError''"
                "quoted ''int'' @ '' object is not subscriptable''" "()"]
          other_failure_is_500
            [of ?rt "PyStr ''5''" "''AttributeError''"
                "quoted ''int'' @ '' object has no attribute '' @ quoted ''get''" "()"]
    unfolding 3 4 5
    by (simp add: mock_runtime_def)
qed

subsection \<open>Defaults and the request that is sent\<close>

lemma log_prompt_text_or_list:
  "log_prompt rt (PyStr s) = Inr ()" "log_prompt rt (PyList xs) = Inr ()"
  by (simp_all add: log_prompt_def)

lemma provider_calls_invoked:
  "effective_request rt event = Inr rq \<Longrightarrow> provider_calls rt event = [provider_args rt rq]"
  by (simp add: provider_calls_def try_block_invoked)

lemma provider_calls_early:
  "effective_request rt event = Inl e \<Longrightarrow> provider_calls rt event = []"
  by (simp add: provider_calls_def try_block_early)

text \<open>
  Claim C2. For an event that is (or decodes to) a dictionary \<open>d\<close>, the four lookups
  never fail and give the effective request \<open>rq\<close>: a field that is absent from \<open>d\<close>
  takes its default (\<open>Hello, how are you?\<close>, 512, 0.7, 0.9) and a field that is present
  keeps its value. Absence is no error: when the prompt is absent, or is a \<open>str\<close>,
  the request goes out to the provider whichever of the other fields are absent. When
  the result has status 200, its envelope echoes the effective prompt and parameters.
\<close>

theorem absent_fields_take_defaults:
  assumes "parse_event rt event = Inr (PyDict d)"
  shows "\<exists>rq. extract_parameters (PyDict d) = Inr rq
           \<and> prompt rq = (case map_of d ''prompt'' of
                            None \<Rightarrow> PyStr ''Hello, how are you?'' | Some v \<Rightarrow> v)
           \<and> max_tokens rq = (case map_of d ''max_tokens'' of
                            None \<Rightarrow> PyInt 512 | Some v \<Rightarrow> v)
           \<and> temperature rq = (case map_of d ''temperature'' of
                            None \<Rightarrow> PyFloat (7 / 10) | Some v \<Rightarrow> v)
           \<and> top_p rq = (case map_of d ''top_p'' of
                            None \<Rightarrow> PyFloat (9 / 10) | Some v \<Rightarrow> v)
           \<and> (map_of d ''prompt'' = None \<or> (\<exists>s. map_of d ''prompt'' = Some (PyStr s)) \<longrightarrow>
                effective_request rt event = Inr rq
                \<and> provider_calls rt event = [provider_args rt rq])
           \<and> (statusCode (lambda_handler rt event ctx) = 200 \<longrightarrow>
                (\<exists>generated_text.
                   body (lambda_handler rt event ctx) =
                     json_dumps rt (PyDict
                       [(''success'', PyBool True),
                        (''generated_text'', generated_text),
                        (''model_id'', PyStr (resolve_model_id rt)),
                        (''input_prompt'', prompt rq),
                        (''parameters'', PyDict
                           [(''max_tokens'', max_tokens rq),
                            (''temperature'', temperature rq),
                            (''top_p'', top_p rq)])])))"
proof -
  define rq where "rq =
     \<lparr>prompt = (case map_of d ''prompt'' of Some v \<Rightarrow> v | None \<Rightarrow> PyStr ''Hello, how are you?''),
      max_tokens = (case map_of d ''max_tokens'' of Some v \<Rightarrow> v | None \<Rightarrow> PyInt 512),
      temperature = (case map_of d ''temperature'' of Some v \<Rightarrow> v | None \<Rightarrow> PyFloat (7 / 10)),
      top_p = (case map_of d ''top_p'' of Some v \<Rightarrow> v | None \<Rightarrow> PyFloat (9 / 10))\<rparr>"
  have ex: "extract_parameters (PyDict d) = Inr rq"
    by (simp add: rq_def extract_parameters_PyDict)
  have eff: "effective_request rt event = bind_exc (log_prompt rt (prompt rq)) (\<lambda>_. Inr rq)"
    by (simp add: effective_request_parsed [OF assms] ex bind_exc_simps)
  have p: "prompt rq = (case map_of d ''prompt'' of
                          None \<Rightarrow> PyStr ''Hello, how are you?'' | Some v \<Rightarrow> v)"
    by (simp add: rq_def split: option.splits)
  have m: "max_tokens rq = (case map_of d ''max_tokens'' of None \<Rightarrow> PyInt 512 | Some v \<Rightarrow> v)"
    by (simp add: rq_def split: option.splits)
  have t: "temperature rq = (case map_of d ''temperature'' of
                          None \<Rightarrow> PyFloat (7 / 10) | Some v \<Rightarrow> v)"
    by (simp add: rq_def split: option.splits)
  have tp: "top_p rq = (case map_of d ''top_p'' of None \<Rightarrow> PyFloat (9 / 10) | Some v \<Rightarrow> v)"
    by (simp add: rq_def split: option.splits)
  have sent: "effective_request rt event = Inr rq \<and> provider_calls rt event = [provider_args rt rq]"
    if "map_of d ''prompt'' = None \<or> (\<exists>s. map_of d ''prompt'' = Some (PyStr s))"
  proof -
    from that obtain s where "prompt rq = PyStr s"
      by (auto simp: p)
    then have "effective_request rt event = Inr rq"
      by (simp add: eff log_prompt_text_or_list bind_exc_simps)
    then show ?thesis
      by (simp add: provider_calls_invoked)
  qed
  have echo: "\<exists>generated_text.
                body (lambda_handler rt event ctx) =
                  json_dumps rt (PyDict
                    [(''success'', PyBool True),
                     (''generated_text'', generated_text),
                     (''model_id'', PyStr (resolve_model_id rt)),
                     (''input_prompt'', prompt rq),
                     (''parameters'', PyDict
                        [(''max_tokens'', max_tokens rq),
                         (''temperature'', temperature rq),
                         (''top_p'', top_p rq)])])"
    if "statusCode (lambda_handler rt event ctx) = 200"
  proof -
    from status_200_is_success [OF that] obtain rq' g
      where a: "effective_request rt event = Inr rq'"
        and b: "lambda_handler rt event ctx = success_response rt rq' g"
      by blast
    from effective_request_is_extracted [OF assms a] ex have "rq' = rq"
      by simp
    with b show ?thesis
      by (intro exI [of _ g]) (simp add: success_response_def)
  qed
  from ex p m t tp sent echo show ?thesis
    by blast
qed

theorem absent_fields_take_defaults_witness:
  "\<forall>dumps.
     provider_calls (mock_runtime dumps (\<lambda>_. Inr ''{\"generation\": \"X\"}''))
       (PyDict [(''max_tokens'', PyInt 64)]) =
       [\<lparr>arg_modelId = ''meta.llama3-8b-instruct-v1:0'',
         arg_body = dumps (PyDict
                      [(''prompt'', PyStr ''Hello, how are you?''),
                       (''max_gen_len'', PyInt 64),
                       (''temperature'', PyFloat (7 / 10)),
                       (''top_p'', PyFloat (9 / 10))]),
         arg_contentType = ''application/json'',
         arg_accept = ''application/json''\<rparr>]
     \<and> body (lambda_handler (mock_runtime dumps (\<lambda>_. Inr ''{\"generation\": \"X\"}''))
               (PyDict [(''max_tokens'', PyInt 64)]) ()) =
         dumps (PyDict
           [(''success'', PyBool True),
            (''generated_text'', PyStr ''X''),
            (''model_id'', PyStr ''meta.llama3-8b-instruct-v1:0''),
            (''input_prompt'', PyStr ''Hello, how are you?''),
            (''parameters'', PyDict
               [(''max_tokens'', PyInt 64),
                (''temperature'', PyFloat (7 / 10)),
                (''top_p'', PyFloat (9 / 10))])])"
  (is "\<forall>dumps. ?P dumps")
proof
  fix dumps
  let ?rt = "mock_runtime dumps (\<lambda>_. Inr ''{\"generation\": \"X\"}'')"
  let ?d = "[(''max_tokens'', PyInt 64)]"
  let ?rq = "\<lparr>prompt = PyStr ''Hello, how are you?'', max_tokens = PyInt 64,
              temperature = PyFloat (7 / 10), top_p = PyFloat (9 / 10)\<rparr>"
  have 0: "parse_event ?rt (PyDict ?d) = Inr (PyDict ?d)"
    by (simp add: parse_event_def)
  have ex: "extract_parameters (PyDict ?d) = Inr ?rq"
    by (simp add: extract_parameters_PyDict)
  have 1: "effective_request ?rt (PyDict ?d) = Inr ?rq"
    by (simp add: effective_request_parsed [OF 0] ex log_prompt_def bind_exc_simps)
  have 2: "invoke_model ?rt (provider_args ?rt ?rq) = Inr ''{\"generation\": \"X\"}''"
    by (simp add: mock_runtime_def)
  have 3: "json_loads ?rt ''{\"generation\": \"X\"}'' = Inr (PyDict [(''generation'', PyStr ''X'')])"
    by (simp add: mock_runtime_def mock_loads_def)
  from absent_fields_take_defaults [OF 0, of "()"] obtain rq where
        a: "extract_parameters (PyDict ?d) = Inr rq"
    and b: "map_of ?d ''prompt'' = None \<or> (\<exists>s. map_of ?d ''prompt'' = Some (PyStr s)) \<longrightarrow>
              effective_request ?rt (PyDict ?d) = Inr rq
              \<and> provider_calls ?rt (PyDict ?d) = [provider_args ?rt rq]"
    by blast
  from a ex have rq: "rq = ?rq" by simp
  from b rq have calls: "provider_calls ?rt (PyDict ?d) = [provider_args ?rt ?rq]"
    by simp
  have body: "body (lambda_handler ?rt (PyDict ?d) ()) =
                body (success_response ?rt ?rq (PyStr ''X''))"
    by (simp add: reply_decoded_to_dict [OF 1 2 3])
  show "?P dumps"
    unfolding calls body
    by (simp add: provider_args_def request_body_def success_response_def
                  resolve_model_id_def mock_runtime_def)
qed

text \<open>
  Claim C3. An invocation sends at most one request. When an exception is raised before
  the call, nothing is sent; otherwise the one request names the resolved model, declares
  JSON as content type and as accepted type, and its body is the serialisation of exactly
  the four fields \<open>prompt\<close>, \<open>max_gen_len\<close>, \<open>temperature\<close>, \<open>top_p\<close>, holding the
  effective prompt, \<open>max_tokens\<close>, \<open>temperature\<close> and \<open>top_p\<close>. No value is checked
  against a range: for a dictionary event \<open>d\<close> with a \<open>str\<close> prompt the request goes
  out with whatever \<open>d\<close> holds under the other three keys.
\<close>

theorem request_body_is_renaming:
  "(case effective_request rt event of
      Inl e \<Rightarrow> provider_calls rt event = []
    | Inr rq \<Rightarrow>
        provider_calls rt event =
          [\<lparr>arg_modelId = resolve_model_id rt,
            arg_body = json_dumps rt (PyDict
                         [(''prompt'', prompt rq),
                          (''max_gen_len'', max_tokens rq),
                          (''temperature'', temperature rq),
                          (''top_p'', top_p rq)]),
            arg_contentType = ''application/json'',
            arg_accept = ''application/json''\<rparr>])
   \<and> (parse_event rt event = Inr (PyDict d) \<and> map_of d ''prompt'' = Some (PyStr s) \<longrightarrow>
        effective_request rt event =
          Inr \<lparr>prompt = PyStr s,
               max_tokens = (case map_of d ''max_tokens'' of Some v \<Rightarrow> v | None \<Rightarrow> PyInt 512),
               temperature = (case map_of d ''temperature'' of
                                Some v \<Rightarrow> v | None \<Rightarrow> PyFloat (7 / 10)),
               top_p = (case map_of d ''top_p'' of Some v \<Rightarrow> v | None \<Rightarrow> PyFloat (9 / 10))\<rparr>)"
proof (intro conjI impI)
  show "case effective_request rt event of
          Inl e \<Rightarrow> provider_calls rt event = []
        | Inr rq \<Rightarrow>
            provider_calls rt event =
              [\<lparr>arg_modelId = resolve_model_id rt,
                arg_body = json_dumps rt (PyDict
                             [(''prompt'', prompt rq),
                              (''max_gen_len'', max_tokens rq),
                              (''temperature'', temperature rq),
                              (''top_p'', top_p rq)]),
                arg_contentType = ''application/json'',
                arg_accept = ''application/json''\<rparr>]"
  proof (cases "effective_request rt event")
    case (Inl e)
    then show ?thesis by (simp add: provider_calls_early)
  next
    case (Inr rq)
    then show ?thesis
      by (simp add: provider_calls_invoked provider_args_def request_body_def)
  qed
next
  assume a: "parse_event rt event = Inr (PyDict d) \<and> map_of d ''prompt'' = Some (PyStr s)"
  then show "effective_request rt event =
          Inr \<lparr>prompt = PyStr s,
               max_tokens = (case map_of d ''max_tokens'' of Some v \<Rightarrow> v | None \<Rightarrow> PyInt 512),
               temperature = (case map_of d ''temperature'' of
                                Some v \<Rightarrow> v | None \<Rightarrow> PyFloat (7 / 10)),
               top_p = (case map_of d ''top_p'' of Some v \<Rightarrow> v | None \<Rightarrow> PyFloat (9 / 10))\<rparr>"
    by (simp add: effective_request_parsed [of rt event "PyDict d"] extract_parameters_PyDict
                  log_prompt_text_or_list bind_exc_simps)
qed

theorem request_body_is_renaming_witness:
  "\<forall>dumps.
     provider_calls (mock_runtime dumps (\<lambda>_. Inr ''{}''))
       (PyDict [(''prompt'', PyStr ''Hi''), (''max_tokens'', PyInt (- 5)),
                (''temperature'', PyFloat 1000), (''top_p'', PyStr ''high'')]) =
       [\<lparr>arg_modelId = ''meta.llama3-8b-instruct-v1:0'',
         arg_body = dumps (PyDict
                      [(''prompt'', PyStr ''Hi''),
                       (''max_gen_len'', PyInt (- 5)),
                       (''temperature'', PyFloat 1000),
                       (''top_p'', PyStr ''high'')]),
         arg_contentType = ''application/json'',
         arg_accept = ''application/json''\<rparr>]
     \<and> provider_calls (mock_runtime dumps (\<lambda>_. Inr ''{}'')) (PyStr ''not json'') = []"
  (is "\<forall>dumps. ?P dumps")
proof
  fix dumps
  let ?rt = "mock_runtime dumps (\<lambda>_. Inr ''{}'')"
  let ?d = "[(''prompt'', PyStr ''Hi''), (''max_tokens'', PyInt (- 5)),
             (''temperature'', PyFloat 1000), (''top_p'', PyStr ''high'')]"
  let ?rq = "\<lparr>prompt = PyStr ''Hi'', max_tokens = PyInt (- 5),
              temperature = PyFloat 1000, top_p = PyStr ''high''\<rparr>"
  have 0: "parse_event ?rt (PyDict ?d) = Inr (PyDict ?d) \<and> map_of ?d ''prompt'' = Some (PyStr ''Hi'')"
    by (simp add: parse_event_def)
  from request_body_is_renaming [of ?rt "PyDict ?d" ?d "''Hi''"] 0
  have sent: "effective_request ?rt (PyDict ?d) = Inr ?rq"
    by simp
  from request_body_is_renaming [of ?rt "PyDict ?d" ?d "''Hi''"]
  have first: "provider_calls ?rt (PyDict ?d) =
          [\<lparr>arg_modelId = resolve_model_id ?rt,
            arg_body = json_dumps ?rt (PyDict
                         [(''prompt'', prompt ?rq),
                          (''max_gen_len'', max_tokens ?rq),
                          (''temperature'', temperature ?rq),
                          (''top_p'', top_p ?rq)]),
            arg_contentType = ''application/json'',
            arg_accept = ''application/json''\<rparr>]"
    unfolding sent by simp
  have early: "effective_request ?rt (PyStr ''not json'') =
                 Inl (JSONDecodeError ''Expecting value: line 1 column 1 (char 0)'')"
    by (simp add: effective_request_def parse_event_def mock_runtime_def mock_loads_def
                  bind_exc_simps)
  from request_body_is_renaming [of ?rt "PyStr ''not json''" "[]" "[]"]
  have second: "provider_calls ?rt (PyStr ''not json'') = []"
    unfolding early by simp
  show "?P dumps"
    unfolding first second by (simp add: resolve_model_id_def mock_runtime_def)
qed

subsection \<open>Response headers\<close>

text \<open>
  Claim C8, as the code has it. Every result carries \<open>Content-Type: application/json\<close>
  and \<open>Access-Control-Allow-Origin: *\<close>. The header sets are not the same on every path:
  the success result (status 200) carries these two followed by
  \<open>Access-Control-Allow-Headers: Content-Type\<close> and
  \<open>Access-Control-Allow-Methods: OPTIONS,POST,GET\<close>, and each of the three failure
  results carries the first two only.
\<close>

theorem allow_origin_on_every_path:
  "map_of (headers (lambda_handler rt event ctx)) ''Access-Control-Allow-Origin'' = Some ''*''
   \<and> map_of (headers (lambda_handler rt event ctx)) ''Content-Type'' = Some ''application/json''
   \<and> headers (lambda_handler rt event ctx) =
       (if statusCode (lambda_handler rt event ctx) = 200
        then [(''Content-Type'', ''application/json''),
              (''Access-Control-Allow-Origin'', ''*''),
              (''Access-Control-Allow-Headers'', ''Content-Type''),
              (''Access-Control-Allow-Methods'', ''OPTIONS,POST,GET'')]
        else [(''Content-Type'', ''application/json''),
              (''Access-Control-Allow-Origin'', ''*'')])"
proof -
  from lambda_handler_cases [of rt event ctx] show ?thesis
  proof (elim disjE exE conjE)
    fix rq g
    assume "lambda_handler rt event ctx = success_response rt rq g"
    then show ?thesis by (simp add: success_response_def)
  next
    fix e
    assume r: "lambda_handler rt event ctx = handle_exception rt e"
    from statusCode_handle_exception [of rt e]
    have "statusCode (handle_exception rt e) \<noteq> 200" by auto
    then show ?thesis by (simp add: r headers_handle_exception)
  qed
qed

theorem allow_origin_on_every_path_witness:
  "\<forall>dumps.
     headers (lambda_handler (mock_runtime dumps (\<lambda>_. Inr ''{\"generation\": \"X\"}'')) (PyDict []) ()) =
       [(''Content-Type'', ''application/json''),
        (''Access-Control-Allow-Origin'', ''*''),
        (''Access-Control-Allow-Headers'', ''Content-Type''),
        (''Access-Control-Allow-Methods'', ''OPTIONS,POST,GET'')]
     \<and> headers (lambda_handler (mock_runtime dumps (\<lambda>_. Inr ''{\"generation\": \"X\"}'')) (PyInt 5) ()) =
       [(''Content-Type'', ''application/json''),
        (''Access-Control-Allow-Origin'', ''*'')]"
  (is "\<forall>dumps. ?P dumps")
proof
  fix dumps
  let ?rt = "mock_runtime dumps (\<lambda>_. Inr ''{\"generation\": \"X\"}'')"
  let ?rq = "\<lparr>prompt = PyStr ''Hello, how are you?'', max_tokens = PyInt 512,
              temperature = PyFloat (7 / 10), top_p = PyFloat (9 / 10)\<rparr>"
  have 1: "effective_request ?rt (PyDict []) = Inr ?rq"
    by (simp add: effective_request_def parse_event_def extract_parameters_PyDict
                  log_prompt_def bind_exc_simps)
  have 2: "invoke_model ?rt (provider_args ?rt ?rq) = Inr ''{\"generation\": \"X\"}''"
    by (simp add: mock_runtime_def)
  have 3: "json_loads ?rt ''{\"generation\": \"X\"}'' = Inr (PyDict [(''generation'', PyStr ''X'')])"
    by (simp add: mock_runtime_def mock_loads_def)
  have ok: "statusCode (lambda_handler ?rt (PyDict []) ()) = 200"
    by (simp add: reply_decoded_to_dict [OF 1 2 3] success_response_def)
  have early: "effective_request ?rt (PyInt 5) =
                 Inl (PyException ''AttributeError''
                        (quoted ''int'' @ '' object has no attribute '' @ quoted ''get''))"
    by (simp add: effective_request_def parse_event_def extract_parameters_def dict_get_def
                  bind_exc_simps)
  have ko: "statusCode (lambda_handler ?rt (PyInt 5) ()) = 500"
    by (simp add: lambda_handler_def try_block_early [OF early] handle_exception_def
                  error_response_def)
  show "?P dumps"
    using allow_origin_on_every_path [of ?rt "PyDict []" "()"]
          allow_origin_on_every_path [of ?rt "PyInt 5" "()"]
    unfolding ok ko by simp
qed

text \<open>
  The claim as the specification words it, the same header set on every path, fails: a
  successful invocation and a failed one return different headers.
\<close>

theorem same_headers_on_every_path_counterexample:
  "headers (lambda_handler (mock_runtime (\<lambda>_. []) (\<lambda>_. Inr ''{\"generation\": \"X\"}'')) (PyDict []) ())
     \<noteq> headers (lambda_handler (mock_runtime (\<lambda>_. []) (\<lambda>_. Inr ''{\"generation\": \"X\"}'')) (PyInt 5) ())"
proof -
  let ?rt = "mock_runtime (\<lambda>_. []) (\<lambda>_. Inr ''{\"generation\": \"X\"}'')"
  let ?rq = "\<lparr>prompt = PyStr ''Hello, how are you?'', max_tokens = PyInt 512,
              temperature = PyFloat (7 / 10), top_p = PyFloat (9 / 10)\<rparr>"
  have 1: "effective_request ?rt (PyDict []) = Inr ?rq"
    by (simp add: effective_request_def parse_event_def extract_parameters_PyDict
                  log_prompt_def bind_exc_simps)
  have 2: "invoke_model ?rt (provider_args ?rt ?rq) = Inr ''{\"generation\": \"X\"}''"
    by (simp add: mock_runtime_def)
  have 3: "json_loads ?rt ''{\"generation\": \"X\"}'' = Inr (PyDict [(''generation'', PyStr ''X'')])"
    by (simp add: mock_runtime_def mock_loads_def)
  have good: "headers (lambda_handler ?rt (PyDict []) ()) =
                [(''Content-Type'', ''application/json''),
                 (''Access-Control-Allow-Origin'', ''*''),
                 (''Access-Control-Allow-Headers'', ''Content-Type''),
                 (''Access-Control-Allow-Methods'', ''OPTIONS,POST,GET'')]"
    by (simp add: reply_decoded_to_dict [OF 1 2 3] success_response_def)
  have early: "effective_request ?rt (PyInt 5) =
                 Inl (PyException ''AttributeError''
                        (quoted ''int'' @ '' object has no attribute '' @ quoted ''get''))"
    by (simp add: effective_request_def parse_event_def extract_parameters_def dict_get_def
                  bind_exc_simps)
  have bad: "headers (lambda_handler ?rt (PyInt 5) ()) =
               [(''Content-Type'', ''application/json''),
                (''Access-Control-Allow-Origin'', ''*'')]"
    by (simp add: lambda_handler_def try_block_early [OF early] headers_handle_exception)
  show ?thesis
    unfolding good bad by simp
qed

end
